theory Spec2Isabelle
  imports Main "HOL-Library.Word" "HOL-Library.Sublist" "HOL-Library.Monad_Syntax"
begin

section \<open>The qwikLogger Vite plugin\<close>

text \<open>
  The plugin lives in one function, \<^verbatim>\<open>qwikLogger()\<close>, which closes over five mutable
  variables and four constants and returns an object of hooks that the host (Vite) calls.
  The closure becomes a record that every hook receives and returns; the wall clock
  (\<^verbatim>\<open>new Date().toISOString()\<close>) and the console are made explicit: a hook that reads the
  clock takes the string that the read returns, and a hook that calls \<^verbatim>\<open>console.log\<close>
  returns the messages it logged, one per call, in order.
\<close>

subsection \<open>JavaScript strings\<close>

text \<open>
  A JavaScript string is a sequence of 16-bit code units; \<^verbatim>\<open>===\<close> on two strings and
  \<^verbatim>\<open>+\<close> are equality and concatenation of such sequences. The literals of the source are
  ASCII and are written with \<open>lit\<close>.
\<close>

type_synonym jschar = "16 word"
type_synonym jsstring = "jschar list"

definition lit :: "string \<Rightarrow> jsstring" where
  "lit s = map of_char s"

abbreviation NUL :: jschar where "NUL \<equiv> 0x00"
abbreviation TAB :: jschar where "TAB \<equiv> 0x09"
abbreviation LF :: jschar where "LF \<equiv> 0x0A"
abbreviation DQUOTE :: jschar where "DQUOTE \<equiv> 0x22"
abbreviation SQUOTE :: jschar where "SQUOTE \<equiv> 0x27"

text \<open>\<^verbatim>\<open>Array.prototype.join(sep)\<close> on an array of strings.\<close>

fun array_join :: "jsstring \<Rightarrow> jsstring list \<Rightarrow> jsstring" where
  "array_join sep [] = []"
| "array_join sep [x] = x"
| "array_join sep (x # y # ys) = x @ sep @ array_join sep (y # ys)"

text \<open>
  \<^verbatim>\<open>/\.(js|ts)$/.test(id)\<close>: the expression has no flags, so a match may start at any
  index of the input, reads a full stop, then \<^verbatim>\<open>js\<close> or \<^verbatim>\<open>ts\<close>, and \<^verbatim>\<open>$\<close> then asserts the
  end of the input. The search tries the start positions from left to right.
\<close>

fun regexp_js_ts_test :: "jsstring \<Rightarrow> bool" where
  "regexp_js_ts_test [] = False"
| "regexp_js_ts_test (c # cs) =
     (c # cs = lit ''.js'' \<or> c # cs = lit ''.ts'' \<or> regexp_js_ts_test cs)"

subsection \<open>The closure of \<^verbatim>\<open>qwikLogger\<close>\<close>

definition virtualModuleId :: jsstring where
  "virtualModuleId = lit ''virtual:vite-info''"

definition resolvedVirtualModuleId :: jsstring where
  "resolvedVirtualModuleId = [NUL] @ virtualModuleId"

definition pluginName :: jsstring where
  "pluginName = lit ''vite-plugin-qwik-logger''"

record plugin_state =
  buildTime :: jsstring
  isDev :: bool
  pluginNames :: "jsstring list"
  viteMode :: jsstring
  viteCommand :: jsstring
  viteConfigRoot :: jsstring

text \<open>
  Construction: \<open>now\<close> is what \<^verbatim>\<open>new Date().toISOString()\<close> returns when \<^verbatim>\<open>qwikLogger()\<close>
  runs. \<^verbatim>\<open>buildTime\<close> is a \<^verbatim>\<open>const\<close>; the other five are \<^verbatim>\<open>let\<close> variables.
\<close>

definition qwikLogger :: "jsstring \<Rightarrow> plugin_state" where
  "qwikLogger now =
     \<lparr>buildTime = now, isDev = False, pluginNames = [], viteMode = [],
      viteCommand = [], viteConfigRoot = []\<rparr>"

subsection \<open>The arguments the host passes\<close>

record vite_plugin =
  name :: jsstring

record resolved_config =
  plugins :: "vite_plugin list"
  mode :: jsstring
  command :: jsstring
  root :: jsstring

record change_event =
  event :: jsstring

subsection \<open>The hooks\<close>

text \<open>\<^verbatim>\<open>config(_, { command })\<close>\<close>

definition config :: "plugin_state \<Rightarrow> jsstring \<Rightarrow> plugin_state" where
  "config s cmd = s\<lparr>isDev := (cmd = lit ''serve'')\<rparr>"

text \<open>\<^verbatim>\<open>resolveId(source)\<close>; \<open>None\<close> is \<^verbatim>\<open>null\<close>.\<close>

definition resolveId :: "plugin_state \<Rightarrow> jsstring \<Rightarrow> jsstring option \<times> plugin_state" where
  "resolveId s source =
     (if source = virtualModuleId then (Some resolvedVirtualModuleId, s)
      else (None, s))"

text \<open>
  \<^verbatim>\<open>load(id)\<close>. The template literal starts with a line break, indents each export with
  five tabs and ends with eight spaces and two tabs.
\<close>

definition load :: "plugin_state \<Rightarrow> jsstring \<Rightarrow> jsstring option \<times> plugin_state" where
  "load s id' =
     (if id' = resolvedVirtualModuleId then
        (let pluginsString =
               array_join (lit '','') (map (\<lambda>p. [SQUOTE] @ p @ [SQUOTE]) (pluginNames s))
         in (Some
              ([LF] @ replicate 5 TAB
                 @ lit ''export const getTimestamp = () => new Date().toISOString();''
               @ [LF] @ replicate 5 TAB
                 @ lit ''export const buildTime = '' @ [DQUOTE] @ buildTime s @ [DQUOTE] @ lit '';''
               @ [LF] @ replicate 5 TAB
                 @ lit ''export const pluginNames = ['' @ pluginsString @ lit ''];''
               @ [LF] @ replicate 5 TAB
                 @ lit ''export const viteMode = '' @ [DQUOTE] @ viteMode s @ [DQUOTE] @ lit '';''
               @ [LF] @ replicate 5 TAB
                 @ lit ''export const viteCommand = '' @ [DQUOTE] @ viteCommand s @ [DQUOTE] @ lit '';''
               @ [LF] @ replicate 5 TAB
                 @ lit ''export const viteConfigRoot = '' @ [DQUOTE] @ viteConfigRoot s @ [DQUOTE]
                 @ lit '';''
               @ [LF] @ lit ''        '' @ replicate 2 TAB),
             s))
      else (None, s))"

text \<open>
  \<^verbatim>\<open>transform(code, id)\<close>; \<open>now\<close> is what \<^verbatim>\<open>new Date().toISOString()\<close> returns if the
  hook reads the clock.
\<close>

definition transform ::
  "plugin_state \<Rightarrow> jsstring \<Rightarrow> jsstring \<Rightarrow> jsstring \<Rightarrow> jsstring option \<times> plugin_state" where
  "transform s now code id' =
     (if \<not> isDev s then (None, s)
      else if regexp_js_ts_test id' then
        (let timestamp = now
         in (Some (code @ [LF] @ lit ''// Last updated: '' @ timestamp), s))
      else (None, s))"

text \<open>\<^verbatim>\<open>watchChange(id, change)\<close>; the first component is what went to the console.\<close>

definition watchChange ::
  "plugin_state \<Rightarrow> jsstring \<Rightarrow> jsstring \<Rightarrow> change_event \<Rightarrow> jsstring list \<times> plugin_state" where
  "watchChange s now id' change =
     (if \<not> isDev s then ([], s)
      else
        (let timestamp = now
         in ([lit ''['' @ timestamp @ lit ''] File '' @ event change @ lit '': '' @ id'], s)))"

text \<open>\<^verbatim>\<open>configResolved(config)\<close>\<close>

definition configResolved :: "plugin_state \<Rightarrow> resolved_config \<Rightarrow> plugin_state" where
  "configResolved s cfg =
     s\<lparr>pluginNames := map name (plugins cfg),
       viteMode := mode cfg,
       viteCommand := command cfg,
       viteConfigRoot := root cfg\<rparr>"

text \<open>\<^verbatim>\<open>buildStart()\<close>, \<^verbatim>\<open>buildEnd()\<close>, \<^verbatim>\<open>closeBundle()\<close>\<close>

definition buildStart :: "plugin_state \<Rightarrow> jsstring list \<times> plugin_state" where
  "buildStart s = ([[LF] @ lit ''['' @ pluginName @ lit ''] Building...''], s)"

definition buildEnd :: "plugin_state \<Rightarrow> jsstring list \<times> plugin_state" where
  "buildEnd s = ([[LF] @ lit ''['' @ pluginName @ lit ''] Done building''], s)"

definition closeBundle :: "plugin_state \<Rightarrow> jsstring list \<times> plugin_state" where
  "closeBundle s =
     ([[LF] @ lit ''['' @ pluginName @ lit ''] Build is complete. Goodbye!'' @ [LF]], s)"

text \<open>
  \<^verbatim>\<open>generateBundle(_, bundle)\<close>: the bundle is given by its keys in the order in which
  \<^verbatim>\<open>for ... in\<close> enumerates them.
\<close>

definition generateBundle :: "plugin_state \<Rightarrow> jsstring list \<Rightarrow> jsstring list \<times> plugin_state" where
  "generateBundle s bundle =
     (([LF] @ lit ''['' @ pluginName @ lit ''] Output bundle contains:'')
        # map (\<lambda>fileName. lit '' - '' @ fileName) bundle,
      s)"

text \<open>\<^verbatim>\<open>handleHotUpdate({ file })\<close>\<close>

definition handleHotUpdate :: "plugin_state \<Rightarrow> jsstring \<Rightarrow> jsstring list \<times> plugin_state" where
  "handleHotUpdate s file = ([lit ''[HMR] Reloading due to file change: '' @ file], s)"

subsection \<open>The host: sequences of hook calls\<close>

text \<open>
  The host calls the hooks one after another on the same plugin object. A call carries
  the hook's arguments and, for a hook that may read the clock, the string that the read
  returns. \<open>invoke\<close> gives the closure after the call and \<open>run\<close> threads it through a
  sequence of calls.
\<close>

datatype hook_call =
    Config jsstring
  | ResolveId jsstring
  | Load jsstring
  | Transform jsstring jsstring jsstring
  | WatchChange jsstring jsstring change_event
  | ConfigResolved resolved_config
  | BuildStart
  | BuildEnd
  | GenerateBundle "jsstring list"
  | CloseBundle
  | HandleHotUpdate jsstring

fun invoke :: "plugin_state \<Rightarrow> hook_call \<Rightarrow> plugin_state" where
  "invoke s (Config cmd) = config s cmd"
| "invoke s (ResolveId source) = snd (resolveId s source)"
| "invoke s (Load id') = snd (load s id')"
| "invoke s (Transform now code id') = snd (transform s now code id')"
| "invoke s (WatchChange now id' change) = snd (watchChange s now id' change)"
| "invoke s (ConfigResolved cfg) = configResolved s cfg"
| "invoke s BuildStart = snd (buildStart s)"
| "invoke s BuildEnd = snd (buildEnd s)"
| "invoke s (GenerateBundle bundle) = snd (generateBundle s bundle)"
| "invoke s CloseBundle = snd (closeBundle s)"
| "invoke s (HandleHotUpdate file) = snd (handleHotUpdate s file)"

fun run :: "plugin_state \<Rightarrow> hook_call list \<Rightarrow> plugin_state" where
  "run s [] = s"
| "run s (c # cs) = run (invoke s c) cs"

fun isConfigResolved :: "hook_call \<Rightarrow> bool" where
  "isConfigResolved (ConfigResolved cfg) = True"
| "isConfigResolved c = False"

subsection \<open>Notions the properties are stated with\<close>

text \<open>
  Lines of a text: ECMAScript ends a line, and with it a \<^verbatim>\<open>//\<close> comment, at a line feed,
  a carriage return, U+2028 or U+2029. \<open>text_lines\<close> splits a text at these code units.
\<close>

definition isLineTerminator :: "jschar \<Rightarrow> bool" where
  "isLineTerminator c = (c = 0x0A \<or> c = 0x0D \<or> c = 0x2028 \<or> c = 0x2029)"

fun text_lines :: "jsstring \<Rightarrow> jsstring list" where
  "text_lines [] = [[]]"
| "text_lines (c # cs) =
     (if isLineTerminator c then [] # text_lines cs
      else (case text_lines cs of [] \<Rightarrow> [[c]] | l # ls \<Rightarrow> (c # l) # ls))"

text \<open>
  The format in which \<^verbatim>\<open>Date.prototype.toISOString\<close> prints a date of the years 0 to 9999:
  \<^verbatim>\<open>YYYY-MM-DDTHH:mm:ss.sssZ\<close>. In a format, \<^verbatim>\<open>d\<close> stands for a decimal digit and every
  other character for itself.
\<close>

definition isDigit :: "jschar \<Rightarrow> bool" where
  "isDigit c = (0x30 \<le> c \<and> c \<le> 0x39)"

fun matchesFormat :: "string \<Rightarrow> jsstring \<Rightarrow> bool" where
  "matchesFormat [] [] = True"
| "matchesFormat (p # ps) (c # cs) =
     ((if p = CHR ''d'' then isDigit c else c = of_char p) \<and> matchesFormat ps cs)"
| "matchesFormat _ _ = False"

definition isISOString :: "jsstring \<Rightarrow> bool" where
  "isISOString ts = matchesFormat ''dddd-dd-ddTdd:dd:dd.dddZ'' ts"

subsection \<open>Reading the generated module\<close>

text \<open>
  Reading the generated module. In ECMAScript source text a string literal is a quote, its
  characters and the same quote again; between the quotes every code unit stands for
  itself, except the quote (it ends the literal), the backslash (it starts an escape
  sequence), and the line feed and the carriage return (they may not occur). The readers
  below read literals without escape sequences and answer \<open>None\<close> for every other text;
  for the literals they do read, the value is the one the language gives. Each reader
  returns the value together with the text that follows it.
\<close>

abbreviation CR :: jschar where "CR \<equiv> 0x0D"
abbreviation BACKSLASH :: jschar where "BACKSLASH \<equiv> 0x5C"

definition literalChar :: "jschar \<Rightarrow> jschar \<Rightarrow> bool" where
  "literalChar q c = (c \<noteq> q \<and> c \<noteq> BACKSLASH \<and> c \<noteq> LF \<and> c \<noteq> CR)"

fun readStringChars :: "jschar \<Rightarrow> jsstring \<Rightarrow> (jsstring \<times> jsstring) option" where
  "readStringChars q [] = None"
| "readStringChars q (c # cs) =
     (if c = q then Some ([], cs)
      else if literalChar q c then
        (case readStringChars q cs of
           None \<Rightarrow> None
         | Some (v, rest) \<Rightarrow> Some (c # v, rest))
      else None)"

fun readStringLiteral :: "jschar \<Rightarrow> jsstring \<Rightarrow> (jsstring \<times> jsstring) option" where
  "readStringLiteral q [] = None"
| "readStringLiteral q (c # cs) = (if c = q then readStringChars q cs else None)"

text \<open>
  An array of single-quoted string literals, as the template writes it: \<^verbatim>\<open>[]\<close>, or the
  literals separated by commas between square brackets. \<open>readElements\<close> reads what follows
  an element.
\<close>

function readElements :: "jsstring \<Rightarrow> (jsstring list \<times> jsstring) option" where
  "readElements [] = None"
| "readElements (c # cs) =
     (if c = 0x5D then Some ([], cs)
      else if c = 0x2C then
        (case readStringLiteral SQUOTE cs of
           None \<Rightarrow> None
         | Some (v, rest) \<Rightarrow>
             (case readElements rest of
                None \<Rightarrow> None
              | Some (vs, rest') \<Rightarrow> Some (v # vs, rest')))
      else None)"
  by pat_completeness auto
termination
proof -
  have chars_shorter: "length r < length xs"
    if "readStringChars q xs = Some (w, r)" for q xs w r
    using that by (induction xs arbitrary: w r) (auto split: if_splits option.splits)
  have literal_shorter: "length r < length xs"
    if "readStringLiteral q xs = Some (w, r)" for q xs w r
    using that by (cases xs) (auto split: if_splits dest: chars_shorter)
  show ?thesis
    by (relation "measure length") (auto dest: literal_shorter)
qed

fun readArrayLiteral :: "jsstring \<Rightarrow> (jsstring list \<times> jsstring) option" where
  "readArrayLiteral (c # d # ds) =
     (if c \<noteq> 0x5B then None
      else if d = 0x5D then Some ([], ds)
      else (case readStringLiteral SQUOTE (d # ds) of
              None \<Rightarrow> None
            | Some (v, rest) \<Rightarrow>
                (case readElements rest of
                   None \<Rightarrow> None
                 | Some (vs, rest') \<Rightarrow> Some (v # vs, rest'))))"
| "readArrayLiteral _ = None"

text \<open>
  The module: the fixed text of the template, with a double-quoted literal where the
  template has \<^verbatim>\<open>${buildTime}\<close>, \<^verbatim>\<open>${viteMode}\<close>, \<^verbatim>\<open>${viteCommand}\<close> and
  \<^verbatim>\<open>${viteConfigRoot}\<close> between its quotes and an array where it has
  \<^verbatim>\<open>[${pluginsString}]\<close>. \<open>expect\<close> reads a fixed text. \<open>readModule\<close> gives the values of
  the five constants that the module exports.
\<close>

fun expect :: "jsstring \<Rightarrow> jsstring \<Rightarrow> jsstring option" where
  "expect [] text = Some text"
| "expect (p # ps) [] = None"
| "expect (p # ps) (c # cs) = (if p = c then expect ps cs else None)"

record module_exports =
  buildTime_export :: jsstring
  pluginNames_export :: "jsstring list"
  viteMode_export :: jsstring
  viteCommand_export :: jsstring
  viteConfigRoot_export :: jsstring

definition readModule :: "jsstring \<Rightarrow> module_exports option" where
  "readModule text = do {
     t1 \<leftarrow> expect ([LF] @ replicate 5 TAB
                   @ lit ''export const getTimestamp = () => new Date().toISOString();''
                 @ [LF] @ replicate 5 TAB @ lit ''export const buildTime = '') text;
     (b, t2) \<leftarrow> readStringLiteral DQUOTE t1;
     t3 \<leftarrow> expect (lit '';'' @ [LF] @ replicate 5 TAB @ lit ''export const pluginNames = '') t2;
     (ns, t4) \<leftarrow> readArrayLiteral t3;
     t5 \<leftarrow> expect (lit '';'' @ [LF] @ replicate 5 TAB @ lit ''export const viteMode = '') t4;
     (m, t6) \<leftarrow> readStringLiteral DQUOTE t5;
     t7 \<leftarrow> expect (lit '';'' @ [LF] @ replicate 5 TAB @ lit ''export const viteCommand = '') t6;
     (c, t8) \<leftarrow> readStringLiteral DQUOTE t7;
     t9 \<leftarrow> expect (lit '';'' @ [LF] @ replicate 5 TAB @ lit ''export const viteConfigRoot = '') t8;
     (r, t10) \<leftarrow> readStringLiteral DQUOTE t9;
     t11 \<leftarrow> expect (lit '';'' @ [LF] @ lit ''        '' @ replicate 2 TAB) t10;
     if t11 = [] then
       Some \<lparr>buildTime_export = b, pluginNames_export = ns, viteMode_export = m,
             viteCommand_export = c, viteConfigRoot_export = r\<rparr>
     else None
   }"

text \<open>
  The states whose values can stand between the template's quotes as they are: no plugin
  name holds a single quote, none of the four strings a double quote, and none of them a
  backslash, a line feed or a carriage return.
\<close>

definition literalState :: "plugin_state \<Rightarrow> bool" where
  "literalState s =
     (list_all (literalChar DQUOTE) (buildTime s)
      \<and> list_all (list_all (literalChar SQUOTE)) (pluginNames s)
      \<and> list_all (literalChar DQUOTE) (viteMode s)
      \<and> list_all (literalChar DQUOTE) (viteCommand s)
      \<and> list_all (literalChar DQUOTE) (viteConfigRoot s))"

section \<open>Properties\<close>

subsection \<open>Auxiliary facts\<close>

text \<open>The regular expression of \<open>transform\<close> accepts the identifiers that end with
  \<^verbatim>\<open>.js\<close> or \<^verbatim>\<open>.ts\<close>.\<close>

lemma regexp_js_ts_test_iff:
  "regexp_js_ts_test xs \<longleftrightarrow> suffix (lit ''.js'') xs \<or> suffix (lit ''.ts'') xs"
  by (induction xs) (auto simp: suffix_Cons lit_def)

lemma text_lines_nonempty: "text_lines xs \<noteq> []"
  by (induction xs) (auto split: list.splits)

lemma text_lines_single:
  "\<forall>c\<in>set xs. \<not> isLineTerminator c \<Longrightarrow> text_lines xs = [xs]"
  by (induction xs) auto

lemma text_lines_append:
  "isLineTerminator t \<Longrightarrow> text_lines (xs @ t # ys) = text_lines xs @ text_lines ys"
proof (induction xs)
  case Nil
  then show ?case by simp
next
  case (Cons c xs)
  then show ?case
    by (cases "text_lines xs") (auto simp: text_lines_nonempty)
qed

lemma LF_isLineTerminator: "isLineTerminator LF"
  by (simp add: isLineTerminator_def)

lemma matchesFormat_chars:
  "matchesFormat p ts \<Longrightarrow> c \<in> set ts \<Longrightarrow> isDigit c \<or> c \<in> of_char ` set p"
  by (induction p ts rule: matchesFormat.induct) (auto split: if_splits)

lemma isISOString_one_line:
  assumes "isISOString ts" and "c \<in> set ts"
  shows "\<not> isLineTerminator c"
proof -
  from assms have "isDigit c \<or> c \<in> of_char ` set ''dddd-dd-ddTdd:dd:dd.dddZ''"
    unfolding isISOString_def by (rule matchesFormat_chars)
  then show ?thesis
    by (auto simp: isDigit_def isLineTerminator_def)
qed

lemma marker_one_line:
  assumes "isISOString now"
  shows "text_lines (lit ''// Last updated: '' @ now) = [lit ''// Last updated: '' @ now]"
proof (rule text_lines_single)
  have "\<forall>c\<in>set (lit ''// Last updated: ''). \<not> isLineTerminator c"
    by (simp add: lit_def isLineTerminator_def)
  with assms show "\<forall>c\<in>set (lit ''// Last updated: '' @ now). \<not> isLineTerminator c"
    by (auto dest: isISOString_one_line)
qed

text \<open>What a sequence of hook calls leaves alone.\<close>

lemma invoke_buildTime: "buildTime (invoke s c) = buildTime s"
  by (cases c)
    (simp_all add: config_def resolveId_def load_def transform_def watchChange_def
      configResolved_def buildStart_def buildEnd_def generateBundle_def closeBundle_def
      handleHotUpdate_def Let_def)

lemma run_buildTime: "buildTime (run s cs) = buildTime s"
  by (induction cs arbitrary: s) (simp_all add: invoke_buildTime)

lemma invoke_descriptors:
  "\<not> isConfigResolved c \<Longrightarrow>
     pluginNames (invoke s c) = pluginNames s \<and> viteMode (invoke s c) = viteMode s
     \<and> viteCommand (invoke s c) = viteCommand s \<and> viteConfigRoot (invoke s c) = viteConfigRoot s"
  by (cases c)
    (simp_all add: config_def resolveId_def load_def transform_def watchChange_def
      buildStart_def buildEnd_def generateBundle_def closeBundle_def
      handleHotUpdate_def Let_def)

lemma run_descriptors:
  "\<forall>c\<in>set cs. \<not> isConfigResolved c \<Longrightarrow>
     pluginNames (run s cs) = pluginNames s \<and> viteMode (run s cs) = viteMode s
     \<and> viteCommand (run s cs) = viteCommand s \<and> viteConfigRoot (run s cs) = viteConfigRoot s"
  by (induction cs arbitrary: s) (simp_all add: invoke_descriptors)

text \<open>The readers read back what \<open>load\<close> writes for a state of \<open>literalState\<close>.\<close>

lemma readStringChars_literal:
  "list_all (literalChar q) v \<Longrightarrow> readStringChars q (v @ q # rest) = Some (v, rest)"
  by (induction v) (auto simp: literalChar_def)

lemma readElements_join:
  "list_all (list_all (literalChar SQUOTE)) ns \<Longrightarrow>
     readElements (concat (map (\<lambda>p. 0x2C # SQUOTE # p @ [SQUOTE]) ns) @ 0x5D # rest) = Some (ns, rest)"
  by (induction ns) (auto simp: readStringChars_literal)

lemma array_join_concat:
  "array_join [0x2C] ((SQUOTE # n @ [SQUOTE]) # map (\<lambda>p. SQUOTE # p @ [SQUOTE]) ns)
     = SQUOTE # n @ SQUOTE # concat (map (\<lambda>p. 0x2C # SQUOTE # p @ [SQUOTE]) ns)"
  by (induction ns arbitrary: n) auto

lemma readArrayLiteral_join:
  assumes "list_all (list_all (literalChar SQUOTE)) ns"
  shows "readArrayLiteral (0x5B # array_join [0x2C] (map (\<lambda>p. SQUOTE # p @ [SQUOTE]) ns) @ 0x5D # rest)
           = Some (ns, rest)"
proof (cases ns)
  case Nil
  then show ?thesis by simp
next
  case (Cons n ns')
  with assms show ?thesis
    by (simp add: array_join_concat readStringChars_literal readElements_join)
qed

lemma load_read_back:
  assumes "literalState s"
  shows "Option.bind (fst (load s (NUL # lit ''virtual:vite-info''))) readModule
     = Some \<lparr>buildTime_export = buildTime s, pluginNames_export = pluginNames s,
             viteMode_export = viteMode s, viteCommand_export = viteCommand s,
             viteConfigRoot_export = viteConfigRoot s\<rparr>"
  using assms
  by (simp add: load_def resolvedVirtualModuleId_def virtualModuleId_def readModule_def
        literalState_def lit_def eval_nat_numeral readStringChars_literal readArrayLiteral_join)

subsection \<open>Resolving the virtual module\<close>

text \<open>
  C1: for every source string, \<open>resolveId\<close> returns the reserved identifier, the literal
  \<^verbatim>\<open>virtual:vite-info\<close> behind a NUL code unit, when the source is exactly
  \<^verbatim>\<open>virtual:vite-info\<close>, and \<^verbatim>\<open>null\<close> for every other source. The result is the same in
  every state of the plugin, so the same input always yields the same output. A file path
  contains no NUL, so the result never equals a file path.
\<close>

theorem resolveId_reserved_identifier:
  "fst (resolveId s source) =
     (if source = lit ''virtual:vite-info'' then Some (NUL # lit ''virtual:vite-info'') else None)
   \<and> fst (resolveId s' source) = fst (resolveId s source)
   \<and> (\<forall>path. NUL \<notin> set path \<longrightarrow> fst (resolveId s source) \<noteq> Some path)"
  by (auto simp: resolveId_def virtualModuleId_def resolvedVirtualModuleId_def)

theorem resolveId_reserved_identifier_witness:
  "fst (resolveId (qwikLogger (lit ''2026-11-03T13:30:00.000Z'')) (lit ''virtual:vite-info''))
     = Some (NUL # lit ''virtual:vite-info'')
   \<and> fst (resolveId (qwikLogger (lit ''2026-11-03T13:30:00.000Z'')) (lit ''./src/root.tsx'')) = None
   \<and> NUL \<notin> set (lit ''virtual:vite-info'')
   \<and> fst (resolveId (qwikLogger (lit ''2026-11-03T13:30:00.000Z'')) (lit ''virtual:vite-info''))
     \<noteq> Some (lit ''virtual:vite-info'')"
  using resolveId_reserved_identifier
          [of "qwikLogger (lit ''2026-11-03T13:30:00.000Z'')" "lit ''virtual:vite-info''"
              "qwikLogger (lit ''2026-11-03T13:30:00.000Z'')"]
        resolveId_reserved_identifier
          [of "qwikLogger (lit ''2026-11-03T13:30:00.000Z'')" "lit ''./src/root.tsx''"
              "qwikLogger (lit ''2026-11-03T13:30:00.000Z'')"]
  by (simp add: lit_def)

subsection \<open>Loading the virtual module\<close>

text \<open>
  C2, as the specification states it, holds in every state of the plugin: the \<^verbatim>\<open>pluginNames\<close>
  export of the generated text is the state's sequence of plugin names and the four string
  exports equal the state's values. \<open>load\<close> writes the values between the quotes as they
  are, without escaping. After \<open>configResolved\<close> has stored the single plugin name
  \<^verbatim>\<open>a','b\<close>, the text is the very text that the two names \<^verbatim>\<open>a\<close> and \<^verbatim>\<open>b\<close> give, and its
  \<^verbatim>\<open>pluginNames\<close> export is the sequence of \<^verbatim>\<open>a\<close> and \<^verbatim>\<open>b\<close>, not the state's. After it has
  stored the mode \<^verbatim>\<open>a"b\<close>, the text is no module of the template's shape: the literal of
  \<^verbatim>\<open>viteMode\<close> ends at the inner quote.
\<close>

theorem load_unescaped_counterexample:
  "pluginNames
     (configResolved (config (qwikLogger (lit ''2026-11-03T13:30:00.000Z'')) (lit ''serve''))
        \<lparr>plugins = [\<lparr>name = lit ''a','b''\<rparr>], mode = lit ''development'',
         command = lit ''serve'', root = lit ''/proj''\<rparr>)
     = [lit ''a','b'']
   \<and> [lit ''a','b''] \<noteq> [lit ''a'', lit ''b'']
   \<and> fst (load
            (configResolved (config (qwikLogger (lit ''2026-11-03T13:30:00.000Z'')) (lit ''serve''))
               \<lparr>plugins = [\<lparr>name = lit ''a','b''\<rparr>], mode = lit ''development'',
                command = lit ''serve'', root = lit ''/proj''\<rparr>)
            (NUL # lit ''virtual:vite-info''))
       = fst (load
            (configResolved (config (qwikLogger (lit ''2026-11-03T13:30:00.000Z'')) (lit ''serve''))
               \<lparr>plugins = [\<lparr>name = lit ''a''\<rparr>, \<lparr>name = lit ''b''\<rparr>], mode = lit ''development'',
                command = lit ''serve'', root = lit ''/proj''\<rparr>)
            (NUL # lit ''virtual:vite-info''))
   \<and> map_option pluginNames_export
         (Option.bind
            (fst (load
               (configResolved (config (qwikLogger (lit ''2026-11-03T13:30:00.000Z'')) (lit ''serve''))
                  \<lparr>plugins = [\<lparr>name = lit ''a','b''\<rparr>], mode = lit ''development'',
                   command = lit ''serve'', root = lit ''/proj''\<rparr>)
               (NUL # lit ''virtual:vite-info'')))
            readModule)
       = Some [lit ''a'', lit ''b'']
   \<and> viteMode
         (configResolved (config (qwikLogger (lit ''2026-11-03T13:30:00.000Z'')) (lit ''serve''))
            \<lparr>plugins = [\<lparr>name = lit ''a''\<rparr>], mode = lit ''a'' @ [DQUOTE] @ lit ''b'',
             command = lit ''serve'', root = lit ''/proj''\<rparr>)
       = lit ''a'' @ [DQUOTE] @ lit ''b''
   \<and> Option.bind
         (fst (load
            (configResolved (config (qwikLogger (lit ''2026-11-03T13:30:00.000Z'')) (lit ''serve''))
               \<lparr>plugins = [\<lparr>name = lit ''a''\<rparr>], mode = lit ''a'' @ [DQUOTE] @ lit ''b'',
                command = lit ''serve'', root = lit ''/proj''\<rparr>)
            (NUL # lit ''virtual:vite-info'')))
         readModule
       = None"
  by code_simp

text \<open>
  C2, amended: in every state of the plugin, \<open>load\<close> called with the reserved identifier
  returns the text of six export statements, each behind a line feed and five tabs, with
  the state's values written into it as they are, without escaping: the plugin names each
  between single quotes, separated by commas, between square brackets, and \<^verbatim>\<open>buildTime\<close>,
  \<^verbatim>\<open>viteMode\<close>, \<^verbatim>\<open>viteCommand\<close> and \<^verbatim>\<open>viteConfigRoot\<close> each between double quotes. In
  every state in which no plugin name holds a single quote, a backslash, a line feed or a
  carriage return and none of the four strings holds a double quote, a backslash, a line
  feed or a carriage return, the \<^verbatim>\<open>pluginNames\<close> export of that text is the state's sequence
  of plugin names and the four string exports equal the state's values exactly. For every
  other identifier \<open>load\<close> returns \<^verbatim>\<open>null\<close>. The example is the state with plugins \<^verbatim>\<open>a\<close>
  and \<^verbatim>\<open>b\<close>, mode \<^verbatim>\<open>development\<close>, command \<^verbatim>\<open>serve\<close> and root \<^verbatim>\<open>/proj\<close>.
\<close>

theorem load_generated_source:
  "fst (load s id') =
     (if id' = NUL # lit ''virtual:vite-info'' then
        Some (concat (map (\<lambda>statement. [LF] @ replicate 5 TAB @ statement)
                [lit ''export const getTimestamp = () => new Date().toISOString();'',
                 lit ''export const buildTime = '' @ [DQUOTE] @ buildTime s @ [DQUOTE] @ lit '';'',
                 lit ''export const pluginNames = [''
                   @ array_join (lit '','') (map (\<lambda>p. [SQUOTE] @ p @ [SQUOTE]) (pluginNames s))
                   @ lit ''];'',
                 lit ''export const viteMode = '' @ [DQUOTE] @ viteMode s @ [DQUOTE] @ lit '';'',
                 lit ''export const viteCommand = '' @ [DQUOTE] @ viteCommand s @ [DQUOTE] @ lit '';'',
                 lit ''export const viteConfigRoot = '' @ [DQUOTE] @ viteConfigRoot s @ [DQUOTE]
                   @ lit '';''])
              @ [LF] @ lit ''        '' @ [TAB, TAB])
      else None)
   \<and> (literalState s \<longrightarrow>
        Option.bind (fst (load s (NUL # lit ''virtual:vite-info''))) readModule
          = Some \<lparr>buildTime_export = buildTime s, pluginNames_export = pluginNames s,
                  viteMode_export = viteMode s, viteCommand_export = viteCommand s,
                  viteConfigRoot_export = viteConfigRoot s\<rparr>)"
proof -
  have "fst (load s id') =
     (if id' = NUL # lit ''virtual:vite-info'' then
        Some (concat (map (\<lambda>statement. [LF] @ replicate 5 TAB @ statement)
                [lit ''export const getTimestamp = () => new Date().toISOString();'',
                 lit ''export const buildTime = '' @ [DQUOTE] @ buildTime s @ [DQUOTE] @ lit '';'',
                 lit ''export const pluginNames = [''
                   @ array_join (lit '','') (map (\<lambda>p. [SQUOTE] @ p @ [SQUOTE]) (pluginNames s))
                   @ lit ''];'',
                 lit ''export const viteMode = '' @ [DQUOTE] @ viteMode s @ [DQUOTE] @ lit '';'',
                 lit ''export const viteCommand = '' @ [DQUOTE] @ viteCommand s @ [DQUOTE] @ lit '';'',
                 lit ''export const viteConfigRoot = '' @ [DQUOTE] @ viteConfigRoot s @ [DQUOTE]
                   @ lit '';''])
              @ [LF] @ lit ''        '' @ [TAB, TAB])
      else None)"
    by (simp add: load_def resolvedVirtualModuleId_def virtualModuleId_def eval_nat_numeral)
  then show ?thesis
    using load_read_back [of s] by blast
qed

theorem load_generated_source_witness:
  "literalState
     (configResolved (config (qwikLogger (lit ''2026-11-03T13:30:00.000Z'')) (lit ''serve''))
        \<lparr>plugins = [\<lparr>name = lit ''a''\<rparr>, \<lparr>name = lit ''b''\<rparr>], mode = lit ''development'',
         command = lit ''serve'', root = lit ''/proj''\<rparr>)
   \<and> fst (load (configResolved (config (qwikLogger (lit ''2026-11-03T13:30:00.000Z'')) (lit ''serve''))
              \<lparr>plugins = [\<lparr>name = lit ''a''\<rparr>, \<lparr>name = lit ''b''\<rparr>], mode = lit ''development'',
               command = lit ''serve'', root = lit ''/proj''\<rparr>)
        (NUL # lit ''virtual:vite-info''))
     = Some ([LF, TAB, TAB, TAB, TAB, TAB]
               @ lit ''export const getTimestamp = () => new Date().toISOString();''
             @ [LF, TAB, TAB, TAB, TAB, TAB]
               @ lit ''export const buildTime = '' @ [DQUOTE] @ lit ''2026-11-03T13:30:00.000Z''
               @ [DQUOTE] @ lit '';''
             @ [LF, TAB, TAB, TAB, TAB, TAB]
               @ lit ''export const pluginNames = ['a','b'];''
             @ [LF, TAB, TAB, TAB, TAB, TAB]
               @ lit ''export const viteMode = '' @ [DQUOTE] @ lit ''development'' @ [DQUOTE] @ lit '';''
             @ [LF, TAB, TAB, TAB, TAB, TAB]
               @ lit ''export const viteCommand = '' @ [DQUOTE] @ lit ''serve'' @ [DQUOTE] @ lit '';''
             @ [LF, TAB, TAB, TAB, TAB, TAB]
               @ lit ''export const viteConfigRoot = '' @ [DQUOTE] @ lit ''/proj'' @ [DQUOTE] @ lit '';''
             @ [LF] @ lit ''        '' @ [TAB, TAB])
   \<and> Option.bind
         (fst (load (configResolved (config (qwikLogger (lit ''2026-11-03T13:30:00.000Z'')) (lit ''serve''))
              \<lparr>plugins = [\<lparr>name = lit ''a''\<rparr>, \<lparr>name = lit ''b''\<rparr>], mode = lit ''development'',
               command = lit ''serve'', root = lit ''/proj''\<rparr>)
            (NUL # lit ''virtual:vite-info'')))
         readModule
       = Some \<lparr>buildTime_export = lit ''2026-11-03T13:30:00.000Z'',
               pluginNames_export = [lit ''a'', lit ''b''],
               viteMode_export = lit ''development'', viteCommand_export = lit ''serve'',
               viteConfigRoot_export = lit ''/proj''\<rparr>
   \<and> fst (load (configResolved (config (qwikLogger (lit ''2026-11-03T13:30:00.000Z'')) (lit ''serve''))
              \<lparr>plugins = [\<lparr>name = lit ''a''\<rparr>, \<lparr>name = lit ''b''\<rparr>], mode = lit ''development'',
               command = lit ''serve'', root = lit ''/proj''\<rparr>)
        (lit ''virtual:vite-info'')) = None"
proof -
  let ?s = "configResolved (config (qwikLogger (lit ''2026-11-03T13:30:00.000Z'')) (lit ''serve''))
              \<lparr>plugins = [\<lparr>name = lit ''a''\<rparr>, \<lparr>name = lit ''b''\<rparr>], mode = lit ''development'',
               command = lit ''serve'', root = lit ''/proj''\<rparr>"
  have safe: "literalState ?s"
    by (simp add: literalState_def literalChar_def configResolved_def config_def qwikLogger_def
          lit_def)
  show ?thesis
    using safe load_generated_source [of ?s "NUL # lit ''virtual:vite-info''"]
      load_generated_source [of ?s "lit ''virtual:vite-info''"]
    by (simp add: lit_def config_def configResolved_def qwikLogger_def eval_nat_numeral)
qed

text \<open>
  C7: as long as \<open>configResolved\<close> has not run, whatever other hooks the host has called,
  \<open>load\<close> with the reserved identifier raises nothing and returns the generated text with
  the defaults: the empty array \<^verbatim>\<open>[]\<close> for the plugin names and empty strings for
  \<^verbatim>\<open>viteMode\<close>, \<^verbatim>\<open>viteCommand\<close> and \<^verbatim>\<open>viteConfigRoot\<close>.
\<close>

theorem load_before_configResolved:
  assumes "\<forall>c\<in>set cs. \<not> isConfigResolved c"
  shows "fst (load (run (qwikLogger t0) cs) resolvedVirtualModuleId)
     = Some ([LF] @ replicate 5 TAB
               @ lit ''export const getTimestamp = () => new Date().toISOString();''
             @ [LF] @ replicate 5 TAB
               @ lit ''export const buildTime = '' @ [DQUOTE] @ t0 @ [DQUOTE] @ lit '';''
             @ [LF] @ replicate 5 TAB @ lit ''export const pluginNames = [];''
             @ [LF] @ replicate 5 TAB @ lit ''export const viteMode = '' @ [DQUOTE, DQUOTE] @ lit '';''
             @ [LF] @ replicate 5 TAB
               @ lit ''export const viteCommand = '' @ [DQUOTE, DQUOTE] @ lit '';''
             @ [LF] @ replicate 5 TAB
               @ lit ''export const viteConfigRoot = '' @ [DQUOTE, DQUOTE] @ lit '';''
             @ [LF] @ lit ''        '' @ replicate 2 TAB)"
proof -
  from assms have "pluginNames (run (qwikLogger t0) cs) = []"
    and "viteMode (run (qwikLogger t0) cs) = []"
    and "viteCommand (run (qwikLogger t0) cs) = []"
    and "viteConfigRoot (run (qwikLogger t0) cs) = []"
    by (simp_all add: run_descriptors qwikLogger_def)
  moreover have "buildTime (run (qwikLogger t0) cs) = t0"
    by (simp add: run_buildTime qwikLogger_def)
  ultimately show ?thesis
    by (simp add: load_def lit_def)
qed

theorem load_before_configResolved_witness:
  "\<not> isConfigResolved (Config (lit ''serve''))
   \<and> \<not> isConfigResolved (ResolveId (lit ''virtual:vite-info''))
   \<and> \<not> isConfigResolved (Load (NUL # lit ''virtual:vite-info''))
   \<and> fst (load (run (qwikLogger (lit ''2026-11-03T13:30:00.000Z''))
                  [Config (lit ''serve''), ResolveId (lit ''virtual:vite-info''),
                   Load (NUL # lit ''virtual:vite-info'')])
             (NUL # lit ''virtual:vite-info''))
     = Some ([LF, TAB, TAB, TAB, TAB, TAB]
               @ lit ''export const getTimestamp = () => new Date().toISOString();''
             @ [LF, TAB, TAB, TAB, TAB, TAB]
               @ lit ''export const buildTime = '' @ [DQUOTE] @ lit ''2026-11-03T13:30:00.000Z''
               @ [DQUOTE] @ lit '';''
             @ [LF, TAB, TAB, TAB, TAB, TAB] @ lit ''export const pluginNames = [];''
             @ [LF, TAB, TAB, TAB, TAB, TAB]
               @ lit ''export const viteMode = '' @ [DQUOTE, DQUOTE] @ lit '';''
             @ [LF, TAB, TAB, TAB, TAB, TAB]
               @ lit ''export const viteCommand = '' @ [DQUOTE, DQUOTE] @ lit '';''
             @ [LF, TAB, TAB, TAB, TAB, TAB]
               @ lit ''export const viteConfigRoot = '' @ [DQUOTE, DQUOTE] @ lit '';''
             @ [LF] @ lit ''        '' @ [TAB, TAB])"
proof -
  have early: "\<forall>c\<in>set [Config (lit ''serve''), ResolveId (lit ''virtual:vite-info''),
                   Load (NUL # lit ''virtual:vite-info'')]. \<not> isConfigResolved c"
    by simp
  show ?thesis
    using load_before_configResolved [OF early, of "lit ''2026-11-03T13:30:00.000Z''"]
    by (simp add: resolvedVirtualModuleId_def virtualModuleId_def eval_nat_numeral)
qed

text \<open>
  C6: \<open>buildTime\<close> is the clock's reading at construction. No hook changes it, so after
  every sequence of hook calls it still is that reading, and every \<open>load\<close> of the virtual
  module, wherever it stands in the sequence, returns a text whose \<^verbatim>\<open>buildTime\<close> statement
  holds that same string.
\<close>

theorem buildTime_fixed_at_construction:
  "buildTime (qwikLogger t0) = t0
   \<and> buildTime (invoke s c) = buildTime s
   \<and> buildTime (run (qwikLogger t0) cs) = t0
   \<and> (case fst (load (run (qwikLogger t0) cs) resolvedVirtualModuleId) of
         None \<Rightarrow> False
       | Some text \<Rightarrow>
           prefix ([LF] @ replicate 5 TAB
                     @ lit ''export const getTimestamp = () => new Date().toISOString();''
                   @ [LF] @ replicate 5 TAB
                     @ lit ''export const buildTime = '' @ [DQUOTE] @ t0 @ [DQUOTE] @ lit '';'')
                  text)"
proof -
  have "buildTime (run (qwikLogger t0) cs) = t0"
    by (simp add: run_buildTime qwikLogger_def)
  then show ?thesis
    by (simp add: invoke_buildTime load_def qwikLogger_def)
qed

theorem buildTime_fixed_at_construction_witness:
  "buildTime
     (run (qwikLogger (lit ''2026-11-03T13:30:00.000Z''))
        [Config (lit ''serve''),
         ConfigResolved \<lparr>plugins = [\<lparr>name = lit ''a''\<rparr>], mode = lit ''development'',
                         command = lit ''serve'', root = lit ''/proj''\<rparr>,
         BuildStart,
         Load (NUL # lit ''virtual:vite-info''),
         Transform (lit ''2026-11-03T13:30:01.000Z'') (lit ''const x = 1;'') (lit ''foo.ts''),
         WatchChange (lit ''2026-11-03T13:30:05.000Z'') (lit ''foo.ts'') \<lparr>event = lit ''update''\<rparr>,
         HandleHotUpdate (lit ''foo.ts'')])
     = lit ''2026-11-03T13:30:00.000Z''"
  using buildTime_fixed_at_construction
          [of "lit ''2026-11-03T13:30:00.000Z''" _ _
              "[Config (lit ''serve''),
                ConfigResolved \<lparr>plugins = [\<lparr>name = lit ''a''\<rparr>], mode = lit ''development'',
                                command = lit ''serve'', root = lit ''/proj''\<rparr>,
                BuildStart,
                Load (NUL # lit ''virtual:vite-info''),
                Transform (lit ''2026-11-03T13:30:01.000Z'') (lit ''const x = 1;'') (lit ''foo.ts''),
                WatchChange (lit ''2026-11-03T13:30:05.000Z'') (lit ''foo.ts'')
                  \<lparr>event = lit ''update''\<rparr>,
                HandleHotUpdate (lit ''foo.ts'')]"]
  by (rule conjunct1 [OF conjunct2 [OF conjunct2]])

subsection \<open>Capturing the command\<close>

text \<open>
  C3, as the specification states it, lets a command other than \<^verbatim>\<open>serve\<close> and \<^verbatim>\<open>build\<close>
  leave \<open>isDev\<close> at its prior value. The hook assigns the comparison's result
  unconditionally: after \<^verbatim>\<open>serve\<close> has set \<open>isDev\<close>, the command \<^verbatim>\<open>preview\<close> clears it.
\<close>

theorem config_command_counterexample:
  "lit ''preview'' \<noteq> lit ''serve'' \<and> lit ''preview'' \<noteq> lit ''build''
   \<and> isDev (config (qwikLogger (lit ''2026-11-03T13:30:00.000Z'')) (lit ''serve'')) = True
   \<and> isDev (config (config (qwikLogger (lit ''2026-11-03T13:30:00.000Z'')) (lit ''serve''))
                (lit ''preview'')) = False"
  by (simp add: config_def lit_def)

text \<open>
  C3, amended: the config hook sets \<open>isDev\<close> to true exactly when the given command equals
  \<^verbatim>\<open>serve\<close>, and to false for every other command, recognised or not, whatever \<open>isDev\<close>
  was before; a second call with the same command leaves the state as the first call
  left it; the hook has no failing path.
\<close>

theorem config_sets_isDev:
  "isDev (config s cmd) = (cmd = lit ''serve'')
   \<and> config (config s cmd) cmd = config s cmd
   \<and> (cmd \<noteq> lit ''serve'' \<and> cmd \<noteq> lit ''build'' \<longrightarrow> \<not> isDev (config s cmd))"
  by (simp add: config_def)

theorem config_sets_isDev_witness:
  "isDev (config (qwikLogger (lit ''2026-11-03T13:30:00.000Z'')) (lit ''serve''))
   \<and> \<not> isDev (config (qwikLogger (lit ''2026-11-03T13:30:00.000Z'')) (lit ''build''))
   \<and> config (config (qwikLogger (lit ''2026-11-03T13:30:00.000Z'')) (lit ''serve'')) (lit ''serve'')
       = config (qwikLogger (lit ''2026-11-03T13:30:00.000Z'')) (lit ''serve'')
   \<and> lit ''test'' \<noteq> lit ''serve'' \<and> lit ''test'' \<noteq> lit ''build''
   \<and> \<not> isDev (config (config (qwikLogger (lit ''2026-11-03T13:30:00.000Z'')) (lit ''serve''))
                  (lit ''test''))"
  using config_sets_isDev [of "qwikLogger (lit ''2026-11-03T13:30:00.000Z'')" "lit ''serve''"]
        config_sets_isDev [of "qwikLogger (lit ''2026-11-03T13:30:00.000Z'')" "lit ''build''"]
        config_sets_isDev
          [of "config (qwikLogger (lit ''2026-11-03T13:30:00.000Z'')) (lit ''serve'')"
              "lit ''test''"]
  by (simp add: lit_def)

subsection \<open>The development transform\<close>

text \<open>
  C4: for every code string and identifier, \<open>transform\<close> returns \<^verbatim>\<open>null\<close> when \<open>isDev\<close> is
  false; when \<open>isDev\<close> is true and the identifier ends with \<^verbatim>\<open>.js\<close> or \<^verbatim>\<open>.ts\<close> (compared
  code unit by code unit, hence case-sensitively) it returns the code unchanged, followed
  by a line feed and the comment \<^verbatim>\<open>// Last updated: \<close> with the clock's reading. When the
  reading has the format of \<^verbatim>\<open>toISOString\<close>, the lines of the result are the lines of the
  code followed by exactly one more line, that comment. (For every other identifier the
  result is \<^verbatim>\<open>null\<close> as well.)
\<close>

theorem transform_dev_append_only:
  "fst (transform s now code id') =
     (if isDev s \<and> (suffix (lit ''.js'') id' \<or> suffix (lit ''.ts'') id')
      then Some (code @ [LF] @ lit ''// Last updated: '' @ now) else None)
   \<and> (isISOString now \<longrightarrow>
        text_lines (code @ [LF] @ lit ''// Last updated: '' @ now)
          = text_lines code @ [lit ''// Last updated: '' @ now])"
  by (simp add: transform_def regexp_js_ts_test_iff text_lines_append LF_isLineTerminator
        marker_one_line)

theorem transform_dev_append_only_witness:
  "isDev (config (qwikLogger (lit ''2026-11-03T13:30:00.000Z'')) (lit ''serve''))
   \<and> suffix (lit ''.ts'') (lit ''foo.ts'')
   \<and> isISOString (lit ''2026-11-03T13:30:01.000Z'')
   \<and> fst (transform (config (qwikLogger (lit ''2026-11-03T13:30:00.000Z'')) (lit ''serve''))
            (lit ''2026-11-03T13:30:01.000Z'') (lit ''const x = 1;'') (lit ''foo.ts''))
       = Some (lit ''const x = 1;\<newline>// Last updated: 2026-11-03T13:30:01.000Z'')
   \<and> text_lines (lit ''const x = 1;\<newline>// Last updated: 2026-11-03T13:30:01.000Z'')
       = [lit ''const x = 1;'', lit ''// Last updated: 2026-11-03T13:30:01.000Z'']
   \<and> fst (transform (config (qwikLogger (lit ''2026-11-03T13:30:00.000Z'')) (lit ''build''))
            (lit ''2026-11-03T13:30:01.000Z'') (lit ''const x = 1;'') (lit ''foo.ts'')) = None
   \<and> fst (transform (config (qwikLogger (lit ''2026-11-03T13:30:00.000Z'')) (lit ''serve''))
            (lit ''2026-11-03T13:30:01.000Z'') (lit ''const x = 1;'') (lit ''foo.TS'')) = None"
  using transform_dev_append_only
          [of "config (qwikLogger (lit ''2026-11-03T13:30:00.000Z'')) (lit ''serve'')"
              "lit ''2026-11-03T13:30:01.000Z''" "lit ''const x = 1;''" "lit ''foo.ts''"]
        transform_dev_append_only
          [of "config (qwikLogger (lit ''2026-11-03T13:30:00.000Z'')) (lit ''build'')"
              "lit ''2026-11-03T13:30:01.000Z''" "lit ''const x = 1;''" "lit ''foo.ts''"]
        transform_dev_append_only
          [of "config (qwikLogger (lit ''2026-11-03T13:30:00.000Z'')) (lit ''serve'')"
              "lit ''2026-11-03T13:30:01.000Z''" "lit ''const x = 1;''" "lit ''foo.TS''"]
  by (simp add: lit_def config_def qwikLogger_def isISOString_def isDigit_def suffix_def
        isLineTerminator_def)

text \<open>
  C5: with \<open>isDev\<close> true and an identifier that ends with \<^verbatim>\<open>.js\<close> or \<^verbatim>\<open>.ts\<close>, a second
  \<open>transform\<close> applied to the result of a first one appends a second marker: the text
  ends with two marker comment lines, one per call, and differs from the result of the
  first call, so \<open>transform\<close> is not idempotent on text it has already transformed.
\<close>

theorem transform_twice_two_markers:
  assumes "isDev s" and "suffix (lit ''.js'') id' \<or> suffix (lit ''.ts'') id'"
  shows "fst (transform s now1 code id') = Some (code @ [LF] @ lit ''// Last updated: '' @ now1)
   \<and> fst (transform (snd (transform s now1 code id')) now2
            (code @ [LF] @ lit ''// Last updated: '' @ now1) id')
       = Some (code @ [LF] @ lit ''// Last updated: '' @ now1
                    @ [LF] @ lit ''// Last updated: '' @ now2)
   \<and> code @ [LF] @ lit ''// Last updated: '' @ now1 @ [LF] @ lit ''// Last updated: '' @ now2
       \<noteq> code @ [LF] @ lit ''// Last updated: '' @ now1
   \<and> (isISOString now1 \<and> isISOString now2 \<longrightarrow>
        text_lines (code @ [LF] @ lit ''// Last updated: '' @ now1
                         @ [LF] @ lit ''// Last updated: '' @ now2)
          = text_lines code @ [lit ''// Last updated: '' @ now1, lit ''// Last updated: '' @ now2])"
proof -
  have once: "transform s now1 code id' = (Some (code @ [LF] @ lit ''// Last updated: '' @ now1), s)"
    using assms by (simp add: transform_def regexp_js_ts_test_iff)
  have twice: "fst (transform s now2 (code @ [LF] @ lit ''// Last updated: '' @ now1) id')
       = Some (code @ [LF] @ lit ''// Last updated: '' @ now1
                    @ [LF] @ lit ''// Last updated: '' @ now2)"
    using assms by (simp add: transform_def regexp_js_ts_test_iff)
  have lines: "text_lines (code @ [LF] @ lit ''// Last updated: '' @ now1
                         @ [LF] @ lit ''// Last updated: '' @ now2)
          = text_lines code @ [lit ''// Last updated: '' @ now1, lit ''// Last updated: '' @ now2]"
    if "isISOString now1" and "isISOString now2"
  proof -
    have "text_lines (code @ LF # (lit ''// Last updated: '' @ now1) @ LF # lit ''// Last updated: '' @ now2)
        = text_lines code @ text_lines ((lit ''// Last updated: '' @ now1) @ LF # lit ''// Last updated: '' @ now2)"
      by (rule text_lines_append [OF LF_isLineTerminator])
    also have "text_lines ((lit ''// Last updated: '' @ now1) @ LF # lit ''// Last updated: '' @ now2)
        = text_lines (lit ''// Last updated: '' @ now1) @ text_lines (lit ''// Last updated: '' @ now2)"
      by (rule text_lines_append [OF LF_isLineTerminator])
    finally show ?thesis
      using that by (simp add: marker_one_line)
  qed
  show ?thesis
    using once twice lines by simp
qed

theorem transform_twice_two_markers_witness:
  "isDev (config (qwikLogger (lit ''2026-11-03T13:30:00.000Z'')) (lit ''serve''))
   \<and> suffix (lit ''.ts'') (lit ''foo.ts'')
   \<and> isISOString (lit ''2026-11-03T13:30:01.000Z'') \<and> isISOString (lit ''2026-11-03T13:30:02.500Z'')
   \<and> fst (transform (config (qwikLogger (lit ''2026-11-03T13:30:00.000Z'')) (lit ''serve''))
            (lit ''2026-11-03T13:30:01.000Z'') (lit ''const x = 1;'') (lit ''foo.ts''))
       = Some (lit ''const x = 1;\<newline>// Last updated: 2026-11-03T13:30:01.000Z'')
   \<and> fst (transform
            (snd (transform (config (qwikLogger (lit ''2026-11-03T13:30:00.000Z'')) (lit ''serve''))
                   (lit ''2026-11-03T13:30:01.000Z'') (lit ''const x = 1;'') (lit ''foo.ts'')))
            (lit ''2026-11-03T13:30:02.500Z'')
            (lit ''const x = 1;\<newline>// Last updated: 2026-11-03T13:30:01.000Z'') (lit ''foo.ts''))
       = Some (lit ''const x = 1;\<newline>// Last updated: 2026-11-03T13:30:01.000Z\<newline>// Last updated: 2026-11-03T13:30:02.500Z'')
   \<and> text_lines (lit ''const x = 1;\<newline>// Last updated: 2026-11-03T13:30:01.000Z\<newline>// Last updated: 2026-11-03T13:30:02.500Z'')
       = [lit ''const x = 1;'', lit ''// Last updated: 2026-11-03T13:30:01.000Z'',
          lit ''// Last updated: 2026-11-03T13:30:02.500Z'']"
proof -
  have dev: "isDev (config (qwikLogger (lit ''2026-11-03T13:30:00.000Z'')) (lit ''serve''))"
    by (simp add: config_def)
  have ts: "suffix (lit ''.js'') (lit ''foo.ts'') \<or> suffix (lit ''.ts'') (lit ''foo.ts'')"
    by (simp add: lit_def suffix_def)
  show ?thesis
    using transform_twice_two_markers [OF dev ts, of "lit ''2026-11-03T13:30:01.000Z''"
        "lit ''const x = 1;''" "lit ''2026-11-03T13:30:02.500Z''"] dev
    by (simp add: lit_def isISOString_def isDigit_def suffix_def isLineTerminator_def config_def
          qwikLogger_def)
qed

subsection \<open>Logging\<close>

text \<open>
  C8: for every identifier and change event, \<open>watchChange\<close> logs nothing when \<open>isDev\<close> is
  false and logs exactly one message when \<open>isDev\<close> is true; the message contains the
  clock's reading, the event string of the change and the identifier, and the closure is
  left as it was. The message is one line of text when the reading has the format of
  \<^verbatim>\<open>toISOString\<close> and neither the event nor the identifier holds a line break.
\<close>

theorem watchChange_dev_only_log:
  "fst (watchChange s now id' change) =
     (if isDev s then [lit ''['' @ now @ lit ''] File '' @ event change @ lit '': '' @ id'] else [])
   \<and> sublist now (lit ''['' @ now @ lit ''] File '' @ event change @ lit '': '' @ id')
   \<and> sublist (event change) (lit ''['' @ now @ lit ''] File '' @ event change @ lit '': '' @ id')
   \<and> sublist id' (lit ''['' @ now @ lit ''] File '' @ event change @ lit '': '' @ id')
   \<and> snd (watchChange s now id' change) = s
   \<and> (isISOString now \<and> (\<forall>c\<in>set (event change @ id'). \<not> isLineTerminator c) \<longrightarrow>
        text_lines (lit ''['' @ now @ lit ''] File '' @ event change @ lit '': '' @ id')
          = [lit ''['' @ now @ lit ''] File '' @ event change @ lit '': '' @ id'])"
proof -
  let ?line = "lit ''['' @ now @ lit ''] File '' @ event change @ lit '': '' @ id'"
  have a: "sublist now ?line"
    by (rule sublist_appendI)
  have "sublist (event change) ((lit ''['' @ now @ lit ''] File '') @ event change @ lit '': '' @ id')"
    by (rule sublist_appendI)
  then have b: "sublist (event change) ?line" by simp
  have "sublist id' ((lit ''['' @ now @ lit ''] File '' @ event change @ lit '': '') @ id' @ [])"
    by (rule sublist_appendI)
  then have c: "sublist id' ?line" by simp
  have d: "text_lines ?line = [?line]"
    if "isISOString now" and "\<forall>c\<in>set (event change @ id'). \<not> isLineTerminator c"
  proof (rule text_lines_single)
    have "\<forall>c\<in>set (lit ''['' @ lit ''] File '' @ lit '': ''). \<not> isLineTerminator c"
      by (simp add: lit_def isLineTerminator_def)
    with that show "\<forall>c\<in>set ?line. \<not> isLineTerminator c"
      by (auto dest: isISOString_one_line)
  qed
  show ?thesis
    using a b c d by (simp add: watchChange_def)
qed

theorem watchChange_dev_only_log_witness:
  "isDev (config (qwikLogger (lit ''2026-11-03T13:30:00.000Z'')) (lit ''serve''))
   \<and> fst (watchChange (config (qwikLogger (lit ''2026-11-03T13:30:00.000Z'')) (lit ''serve''))
            (lit ''2026-11-03T13:30:05.000Z'') (lit ''/proj/src/root.tsx'') \<lparr>event = lit ''update''\<rparr>)
       = [lit ''[2026-11-03T13:30:05.000Z] File update: /proj/src/root.tsx'']
   \<and> text_lines (lit ''[2026-11-03T13:30:05.000Z] File update: /proj/src/root.tsx'')
       = [lit ''[2026-11-03T13:30:05.000Z] File update: /proj/src/root.tsx'']
   \<and> \<not> isDev (config (qwikLogger (lit ''2026-11-03T13:30:00.000Z'')) (lit ''build''))
   \<and> fst (watchChange (config (qwikLogger (lit ''2026-11-03T13:30:00.000Z'')) (lit ''build''))
            (lit ''2026-11-03T13:30:05.000Z'') (lit ''/proj/src/root.tsx'') \<lparr>event = lit ''update''\<rparr>)
       = []"
  using watchChange_dev_only_log
          [of "config (qwikLogger (lit ''2026-11-03T13:30:00.000Z'')) (lit ''serve'')"
              "lit ''2026-11-03T13:30:05.000Z''" "lit ''/proj/src/root.tsx''"
              "\<lparr>event = lit ''update''\<rparr>"]
        watchChange_dev_only_log
          [of "config (qwikLogger (lit ''2026-11-03T13:30:00.000Z'')) (lit ''build'')"
              "lit ''2026-11-03T13:30:05.000Z''" "lit ''/proj/src/root.tsx''"
              "\<lparr>event = lit ''update''\<rparr>"]
  by (simp add: lit_def config_def qwikLogger_def isISOString_def isDigit_def
        isLineTerminator_def)

text \<open>
  C9: \<open>handleHotUpdate\<close> logs exactly one message, which contains the path of the changed
  file, at every call. The hook reads no variable of the closure: two states that differ
  in \<open>isDev\<close> (or in anything else) give the same output. The message is one line of text
  when the path holds no line break.
\<close>

theorem handleHotUpdate_no_dev_guard:
  "fst (handleHotUpdate s file) = [lit ''[HMR] Reloading due to file change: '' @ file]
   \<and> sublist file (lit ''[HMR] Reloading due to file change: '' @ file)
   \<and> fst (handleHotUpdate (s\<lparr>isDev := b\<rparr>) file) = fst (handleHotUpdate s file)
   \<and> fst (handleHotUpdate s' file) = fst (handleHotUpdate s file)
   \<and> snd (handleHotUpdate s file) = s
   \<and> ((\<forall>c\<in>set file. \<not> isLineTerminator c) \<longrightarrow>
        text_lines (lit ''[HMR] Reloading due to file change: '' @ file)
          = [lit ''[HMR] Reloading due to file change: '' @ file])"
proof -
  have "sublist file (lit ''[HMR] Reloading due to file change: '' @ file @ [])"
    by (rule sublist_appendI)
  then have a: "sublist file (lit ''[HMR] Reloading due to file change: '' @ file)" by simp
  have b: "text_lines (lit ''[HMR] Reloading due to file change: '' @ file)
          = [lit ''[HMR] Reloading due to file change: '' @ file]"
    if "\<forall>c\<in>set file. \<not> isLineTerminator c"
  proof (rule text_lines_single)
    have "\<forall>c\<in>set (lit ''[HMR] Reloading due to file change: ''). \<not> isLineTerminator c"
      by (simp add: lit_def isLineTerminator_def)
    with that
    show "\<forall>c\<in>set (lit ''[HMR] Reloading due to file change: '' @ file). \<not> isLineTerminator c"
      by auto
  qed
  show ?thesis
    using a b by (simp add: handleHotUpdate_def)
qed

theorem handleHotUpdate_no_dev_guard_witness:
  "isDev (config (qwikLogger (lit ''2026-11-03T13:30:00.000Z'')) (lit ''serve''))
   \<and> \<not> isDev (config (qwikLogger (lit ''2026-11-03T13:30:00.000Z'')) (lit ''build''))
   \<and> fst (handleHotUpdate (config (qwikLogger (lit ''2026-11-03T13:30:00.000Z'')) (lit ''serve''))
            (lit ''/proj/src/root.tsx''))
       = [lit ''[HMR] Reloading due to file change: /proj/src/root.tsx'']
   \<and> fst (handleHotUpdate (config (qwikLogger (lit ''2026-11-03T13:30:00.000Z'')) (lit ''build''))
            (lit ''/proj/src/root.tsx''))
       = [lit ''[HMR] Reloading due to file change: /proj/src/root.tsx'']
   \<and> text_lines (lit ''[HMR] Reloading due to file change: /proj/src/root.tsx'')
       = [lit ''[HMR] Reloading due to file change: /proj/src/root.tsx'']"
  using handleHotUpdate_no_dev_guard
          [of "config (qwikLogger (lit ''2026-11-03T13:30:00.000Z'')) (lit ''serve'')"
              "lit ''/proj/src/root.tsx''" False
              "config (qwikLogger (lit ''2026-11-03T13:30:00.000Z'')) (lit ''build'')"]
  by (simp add: lit_def config_def qwikLogger_def isLineTerminator_def)

subsection \<open>Frame\<close>

text \<open>
  C10: each hook writes only its own variables. \<open>config\<close> writes \<open>isDev\<close> and leaves
  \<open>pluginNames\<close>, \<open>viteMode\<close>, \<open>viteCommand\<close>, \<open>viteConfigRoot\<close> and \<open>buildTime\<close> as they
  were; \<open>configResolved\<close> writes the four descriptors and leaves \<open>isDev\<close> and \<open>buildTime\<close>
  as they were; \<open>resolveId\<close>, \<open>load\<close>, \<open>transform\<close> and \<open>watchChange\<close> leave every
  variable as it was.
\<close>

theorem hooks_write_only_their_fields:
  "config s cmd = s\<lparr>isDev := isDev (config s cmd)\<rparr>
   \<and> buildTime (config s cmd) = buildTime s
   \<and> pluginNames (config s cmd) = pluginNames s
   \<and> viteMode (config s cmd) = viteMode s
   \<and> viteCommand (config s cmd) = viteCommand s
   \<and> viteConfigRoot (config s cmd) = viteConfigRoot s
   \<and> configResolved s cfg =
       s\<lparr>pluginNames := pluginNames (configResolved s cfg),
         viteMode := viteMode (configResolved s cfg),
         viteCommand := viteCommand (configResolved s cfg),
         viteConfigRoot := viteConfigRoot (configResolved s cfg)\<rparr>
   \<and> isDev (configResolved s cfg) = isDev s
   \<and> buildTime (configResolved s cfg) = buildTime s
   \<and> snd (resolveId s source) = s
   \<and> snd (load s id') = s
   \<and> snd (transform s now code id') = s
   \<and> snd (watchChange s now id' change) = s"
  by (simp add: config_def configResolved_def resolveId_def load_def transform_def
        watchChange_def)

end
